theory Spec2Isabelle
  imports Main "HOL-Library.Char_ord" "HOL-Library.List_Lexorder"
begin

section \<open>Values, errors and outcomes\<close>

text \<open>
  The TiKV storage layer of the policy engine (package \<open>tikv\<close>: \<open>tikv.go\<close> with the
  store, and the file of the \<open>transaction\<close> type). Go strings and byte slices are
  \<open>string\<close> (lists of 8-bit characters), compared byte by byte, shorter prefix first.

  A document value (Go \<open>interface{}\<close> holding decoded JSON): \<open>nil\<close>, \<open>bool\<close>,
  \<open>json.Number\<close>, \<open>string\<close>, \<open>[]interface{}\<close>, \<open>map[string]interface{}\<close>.
\<close>

datatype json =
    JNull
  | JBool bool
  | JNumber string
  | JString string
  | JArray "json list"
  | JObject "(string \<times> json) list"

type_synonym Path = "string list"

datatype PatchOp = AddOp | RemoveOp | ReplaceOp

text \<open>
  \<open>storage.Error\<close> has a code and a message. Every message of the package is built by
  \<open>fmt.Sprintf\<close>; the model keeps the call unevaluated, as the format string and
  its arguments, so no formatting rule of \<open>fmt\<close> is assumed. \<open>ArgPath p\<close> stands
  for the argument \<open>path.String()\<close>, \<open>ArgType n\<close> for a value printed with
  \<open>%T\<close> whose dynamic type is named \<open>n\<close>.
\<close>

datatype ErrCode = InvalidTransactionErr | InvalidPatchErr | NotFoundErr

datatype arg = ArgString string | ArgPath Path | ArgType string

datatype message = Sprintf string "arg list"

datatype error =
    StorageError ErrCode message
  | Errorf string
  | ErrNotExist
  | ErrCannotSetNilValue

text \<open>
  A Go call returns, panics, or does not return. What it returns is the Go result:
  \<open>error option\<close> for a function returning \<open>error\<close> (\<open>None\<close> is \<open>nil\<close>),
  \<open>error + 'a\<close> for \<open>('a, error)\<close>.
\<close>

datatype panic = PanicError error | IndexOutOfRange nat nat

datatype 'a outcome = Return 'a | Panic panic | Diverge

section \<open>The backend transaction\<close>

text \<open>
  \<open>kv.Transaction\<close> of the TiKV client is not part of the package. The model holds
  what the package's calls rely on, after the interface's documented contract:
  \<^item> \<open>Get(k)\<close> returns the value, or \<open>kv.ErrNotExist\<close> when the pair does not exist;
  \<^item> \<open>Set(k, v)\<close> stores \<open>v\<close>; \<open>v\<close> must not be nil or empty, otherwise it returns
    \<open>ErrCannotSetNilValue\<close>;
  \<^item> \<open>Delete(k)\<close> removes the entry for \<open>k\<close>;
  \<^item> \<open>Iter(k, upperBound)\<close> is positioned on the first entry whose key is at least
    \<open>k\<close> and yields keys below \<open>upperBound\<close>, in key order; a nil \<open>upperBound\<close>
    is no bound.
  \<open>entries\<close> is the transaction's view (its snapshot with its own writes applied),
  in ascending key order. \<open>valid\<close> is true from \<open>Begin\<close> until \<open>Commit\<close> or
  \<open>Rollback\<close>.
\<close>

record kv_Transaction =
  entries :: "(string \<times> string) list"
  valid :: bool

definition kv_Begin :: "(string \<times> string) list \<Rightarrow> error + kv_Transaction" where
  "kv_Begin committed = Inr \<lparr>entries = committed, valid = True\<rparr>"

definition kv_Get :: "kv_Transaction \<Rightarrow> string \<Rightarrow> error + string" where
  "kv_Get t k = (case map_of (entries t) k of None \<Rightarrow> Inl ErrNotExist | Some v \<Rightarrow> Inr v)"

fun put_entry :: "string \<Rightarrow> string \<Rightarrow> (string \<times> string) list \<Rightarrow> (string \<times> string) list" where
  "put_entry k v [] = [(k, v)]"
| "put_entry k v ((k', v') # es) =
     (if k < k' then (k, v) # (k', v') # es
      else if k = k' then (k, v) # es
      else (k', v') # put_entry k v es)"

definition kv_Set :: "kv_Transaction \<Rightarrow> string \<Rightarrow> string \<Rightarrow> error option \<times> kv_Transaction" where
  "kv_Set t k v =
     (if v = [] then (Some ErrCannotSetNilValue, t)
      else (None, t\<lparr>entries := put_entry k v (entries t)\<rparr>))"

definition kv_Delete :: "kv_Transaction \<Rightarrow> string \<Rightarrow> error option \<times> kv_Transaction" where
  "kv_Delete t k = (None, t\<lparr>entries := filter (\<lambda>e. fst e \<noteq> k) (entries t)\<rparr>)"

definition kv_Iter :: "kv_Transaction \<Rightarrow> string \<Rightarrow> string option \<Rightarrow> error + (string \<times> string) list" where
  "kv_Iter t k upperBound =
     Inr (filter (\<lambda>e. k \<le> fst e \<and> (case upperBound of None \<Rightarrow> True | Some ub \<Rightarrow> fst e < ub))
            (entries t))"

definition kv_Rollback :: "kv_Transaction \<Rightarrow> kv_Transaction" where
  "kv_Rollback t = t\<lparr>valid := False\<rparr>"

section \<open>Errors of the package (tikv.go)\<close>

definition doesNotExistMsg :: string where
  "doesNotExistMsg = ''document does not exist''"

definition rootMustBeObjectMsg :: string where
  "rootMustBeObjectMsg = ''root must be object''"

definition rootCannotBeRemovedMsg :: string where
  "rootCannotBeRemovedMsg = ''root cannot be removed''"

definition outOfRangeMsg :: string where
  "outOfRangeMsg = ''array index out of range''"

definition arrayIndexTypeMsg :: string where
  "arrayIndexTypeMsg = ''array index must be integer''"

definition invalidPatchError :: "string \<Rightarrow> arg list \<Rightarrow> error" where
  "invalidPatchError f a = StorageError InvalidPatchErr (Sprintf f a)"

definition notFoundErrorf :: "string \<Rightarrow> arg list \<Rightarrow> error" where
  "notFoundErrorf f a = StorageError NotFoundErr (Sprintf f a)"

definition notFoundErrorHint :: "Path \<Rightarrow> string \<Rightarrow> error" where
  "notFoundErrorHint p hint = notFoundErrorf ''%v: %v'' [ArgPath p, ArgString hint]"

definition notFoundError :: "Path \<Rightarrow> error" where
  "notFoundError p = notFoundErrorHint p doesNotExistMsg"

section \<open>Array indices (tikv.go, validateArrayIndex)\<close>

text \<open>
  \<open>strconv.Atoi\<close> of the Go library, for the 64-bit \<open>int\<close>: an optional sign, then
  one or more decimal digits; a syntax error otherwise; a range error when the number
  does not fit the \<open>int\<close>.
\<close>

datatype NumError = ErrSyntax | ErrRange

definition is_digit :: "char \<Rightarrow> bool" where
  "is_digit c \<longleftrightarrow> (48::nat) \<le> of_char c \<and> of_char c \<le> (57::nat)"

definition digit_value :: "char \<Rightarrow> nat" where
  "digit_value c = of_char c - 48"

fun parse_digits :: "string \<Rightarrow> nat \<Rightarrow> nat option" where
  "parse_digits [] n = Some n"
| "parse_digits (c # cs) n =
     (if is_digit c then parse_digits cs (n * 10 + digit_value c) else None)"

definition Atoi :: "string \<Rightarrow> NumError + int" where
  "Atoi s =
     (if s = [] then Inl ErrSyntax
      else
        let neg = (hd s = CHR ''-'');
            ds = (if hd s = CHR ''+'' \<or> hd s = CHR ''-'' then tl s else s)
        in if ds = [] then Inl ErrSyntax
           else (case parse_digits ds 0 of
                   None \<Rightarrow> Inl ErrSyntax
                 | Some un \<Rightarrow>
                     if \<not> neg \<and> 2 ^ 63 \<le> un then Inl ErrRange
                     else if neg \<and> 2 ^ 63 < un then Inl ErrRange
                     else Inr (if neg then - int un else int un)))"

definition validateArrayIndex :: "'a list \<Rightarrow> string \<Rightarrow> Path \<Rightarrow> error + int" where
  "validateArrayIndex arr s p =
     (case Atoi s of
        Inl err \<Rightarrow> Inl (notFoundErrorHint p arrayIndexTypeMsg)
      | Inr idx \<Rightarrow>
          if idx < 0 \<or> int (length arr) \<le> idx then Inl (notFoundErrorHint p outOfRangeMsg)
          else Inr idx)"

text \<open>
  The words of the specification, to compare \<open>validateArrayIndex\<close> with: a decimal
  integer is an optional sign followed by one or more decimal digits, and its value is
  the number the digits denote.
\<close>

definition decimal_integer :: "string \<Rightarrow> bool" where
  "decimal_integer s \<longleftrightarrow>
     (case s of
        [] \<Rightarrow> False
      | c # cs \<Rightarrow>
          if c = CHR ''+'' \<or> c = CHR ''-'' then cs \<noteq> [] \<and> list_all is_digit cs
          else list_all is_digit s)"

definition digits_number :: "string \<Rightarrow> nat" where
  "digits_number ds = foldl (\<lambda>n c. 10 * n + digit_value c) 0 ds"

definition decimal_value :: "string \<Rightarrow> int" where
  "decimal_value s =
     (case s of
        [] \<Rightarrow> 0
      | c # cs \<Rightarrow>
          if c = CHR ''-'' then - int (digits_number cs)
          else if c = CHR ''+'' then int (digits_number cs)
          else int (digits_number s))"

section \<open>The transaction\<close>

text \<open>
  \<open>update\<close> is the struct pushed on the transaction's list. \<open>newUpdate\<close> is called by
  \<open>Write\<close> but defined nowhere in the package: it is a parameter \<open>nu\<close> of the model
  (it gets the operation, the path, the index 0 and the value, and no transaction).
\<close>

record update =
  u_path :: Path
  u_remove :: bool
  u_value :: json

record transaction =
  tikvtxn :: kv_Transaction
  updates :: "update list"

type_synonym newUpdate = "PatchOp \<Rightarrow> Path \<Rightarrow> int \<Rightarrow> json \<Rightarrow> error + update"

definition transaction_Commit :: "transaction \<Rightarrow> error option" where
  "transaction_Commit tx = Some (Errorf ''Not Implemented'')"

definition policy_key :: "string \<Rightarrow> string" where
  "policy_key ident = ''policies/'' @ ident"

text \<open>
  \<open>strings.Split(s, sep)\<close> for a separator of one byte: the pieces between the
  separators, at least one piece.
\<close>

fun strings_Split :: "string \<Rightarrow> char \<Rightarrow> string list" where
  "strings_Split [] sep = [[]]"
| "strings_Split (c # cs) sep =
     (if c = sep then [] # strings_Split cs sep
      else (case strings_Split cs sep of
              [] \<Rightarrow> [[c]]
            | w # ws \<Rightarrow> (c # w) # ws))"

text \<open>
  The loop of \<open>ListPolicies\<close> over the iterator: \<open>splitKey[1]\<close> panics when the key
  holds no \<open>/\<close>.
\<close>

fun collect_ids :: "(string \<times> string) list \<Rightarrow> string list \<Rightarrow> string list outcome" where
  "collect_ids [] ids = Return ids"
| "collect_ids (e # rest) ids =
     (let splitKey = strings_Split (fst e) CHR ''/''
      in if length splitKey \<le> 1 then Panic (IndexOutOfRange 1 (length splitKey))
         else collect_ids rest (ids @ [splitKey ! 1]))"

definition transaction_ListPolicies :: "transaction \<Rightarrow> (error + string list) outcome" where
  "transaction_ListPolicies tx =
     (case kv_Iter (tikvtxn tx) ''policies/'' None of
        Inl err \<Rightarrow> Return (Inl err)
      | Inr iter \<Rightarrow>
          (case collect_ids iter [] of
             Return ids \<Rightarrow> Return (Inr ids)
           | Panic p \<Rightarrow> Panic p
           | Diverge \<Rightarrow> Diverge))"

text \<open>
  \<open>GetPolicy\<close> turns \<open>kv.ErrNotExist\<close> into a not-found error; after any other
  error of \<open>Get\<close> it returns the (nil) value with a nil error.
\<close>

definition transaction_GetPolicy :: "transaction \<Rightarrow> string \<Rightarrow> error + string" where
  "transaction_GetPolicy tx ident =
     (case kv_Get (tikvtxn tx) (policy_key ident) of
        Inl err \<Rightarrow>
          if err = ErrNotExist then Inl (notFoundErrorf ''policy id %q'' [ArgString ident])
          else Inr []
      | Inr val \<Rightarrow> Inr val)"

definition transaction_UpsertPolicy :: "transaction \<Rightarrow> string \<Rightarrow> string \<Rightarrow> error option \<times> transaction" where
  "transaction_UpsertPolicy tx ident bs =
     (case kv_Set (tikvtxn tx) (policy_key ident) bs of
        (err, t') \<Rightarrow> (err, tx\<lparr>tikvtxn := t'\<rparr>))"

definition transaction_DeletePolicy :: "transaction \<Rightarrow> string \<Rightarrow> error option \<times> transaction" where
  "transaction_DeletePolicy tx ident =
     (case kv_Delete (tikvtxn tx) (policy_key ident) of
        (err, t') \<Rightarrow> (err, tx\<lparr>tikvtxn := t'\<rparr>))"


definition updateRoot :: "transaction \<Rightarrow> PatchOp \<Rightarrow> json \<Rightarrow> error option" where
  "updateRoot tx op v =
     (if op = RemoveOp then Some (invalidPatchError rootCannotBeRemovedMsg [])
      else (case v of
              JObject m \<Rightarrow> None
            | _ \<Rightarrow> Some (invalidPatchError rootMustBeObjectMsg [])))"

text \<open>
  The loop of \<open>Write\<close> over the pending updates,
  \<^verbatim>\<open>for curr := txn.updates.Front(); curr != nil; { update := curr.Value.(*update); _ = update }\<close>,
  never moves \<open>curr\<close>: \<open>cur\<close> is the list from the current element on, and the body
  leaves it as it is. \<open>None\<close> is the loop that does not end.
\<close>

partial_function (option) scan_updates :: "update list \<Rightarrow> unit option" where
  "scan_updates cur = (case cur of [] \<Rightarrow> Some () | u # rest \<Rightarrow> scan_updates (u # rest))"

text \<open>
  \<open>Write\<close>, with the call \<open>txn.updateRoot(underlying, op, *ptrval)\<close> of the source
  read as \<open>txn.updateRoot(op, value)\<close>: \<open>updateRoot\<close> takes an operation and a value,
  and \<open>underlying\<close> and \<open>ptrval\<close> are names of the caller \<open>store.Write\<close>.
\<close>

definition transaction_Write ::
  "newUpdate \<Rightarrow> transaction \<Rightarrow> PatchOp \<Rightarrow> Path \<Rightarrow> json \<Rightarrow> (error option \<times> transaction) outcome" where
  "transaction_Write nu tx op p v =
     (if length p = 0 then Return (updateRoot tx op v, tx)
      else (case scan_updates (updates tx) of
              None \<Rightarrow> Diverge
            | Some _ \<Rightarrow>
                (case nu op p 0 v of
                   Inl err \<Rightarrow> Return (Some err, tx)
                 | Inr upd \<Rightarrow> Return (None, tx\<lparr>updates := upd # updates tx\<rparr>))))"

section \<open>The store (tikv.go)\<close>

text \<open>
  A \<open>storage.Transaction\<close> is an interface value: a \<open>*transaction\<close> of this package, or a
  value of another dynamic type (named as \<open>%T\<close> prints it; the nil interface too).
  Operations get the transaction by pointer; the model takes its value and returns the
  value after the call.

  A trigger handle is a pointer, modelled by its address; \<open>allocated\<close> counts the
  handles allocated so far, so that each \<open>Register\<close> gets a new address. A
  \<open>TriggerConfig\<close> holds the callback \<open>OnCommit\<close>, named by a number. \<open>trace\<close> is
  not a field of the Go struct: it records, in order, each call of \<open>Abort\<close> that passed
  its transaction check and each call of an \<open>OnCommit\<close> callback, so that theorems can
  speak about them. \<open>s_store\<close> is the committed content of the backend.
\<close>

datatype storage_Transaction = TikvTxn transaction | ForeignTxn string

type_synonym handle = nat

record TriggerConfig =
  OnCommit :: nat

datatype event = AbortCalled | OnCommitCalled nat

record store =
  s_store :: "(string \<times> string) list"
  s_txn :: "transaction option"
  s_triggers :: "(handle \<times> TriggerConfig) list"
  allocated :: nat
  trace :: "event list"

definition New :: "(string \<times> string) list \<Rightarrow> store" where
  "New s = \<lparr>s_store = s, s_txn = None, s_triggers = [], allocated = 0, trace = []\<rparr>"

definition store_NewTransaction :: "store \<Rightarrow> error + storage_Transaction" where
  "store_NewTransaction s =
     (case kv_Begin (s_store s) of
        Inl err \<Rightarrow> Inl err
      | Inr t \<Rightarrow> Inr (TikvTxn \<lparr>tikvtxn = t, updates = []\<rparr>))"

definition underlyingTxn :: "store \<Rightarrow> storage_Transaction \<Rightarrow> error + transaction" where
  "underlyingTxn s txn =
     (case txn of
        TikvTxn underlying \<Rightarrow> Inr underlying
      | ForeignTxn tname \<Rightarrow>
          Inl (StorageError InvalidTransactionErr
                 (Sprintf ''unexpected transaction type %T'' [ArgType tname])))"

definition store_ListPolicies :: "store \<Rightarrow> storage_Transaction \<Rightarrow> (error + string list) outcome" where
  "store_ListPolicies s txn =
     (case underlyingTxn s txn of
        Inl err \<Rightarrow> Return (Inl err)
      | Inr underlying \<Rightarrow> transaction_ListPolicies underlying)"

definition store_GetPolicy :: "store \<Rightarrow> storage_Transaction \<Rightarrow> string \<Rightarrow> error + string" where
  "store_GetPolicy s txn ident =
     (case underlyingTxn s txn of
        Inl err \<Rightarrow> Inl err
      | Inr underlying \<Rightarrow> transaction_GetPolicy underlying ident)"

definition store_UpsertPolicy ::
  "store \<Rightarrow> storage_Transaction \<Rightarrow> string \<Rightarrow> string \<Rightarrow> error option \<times> storage_Transaction" where
  "store_UpsertPolicy s txn ident bs =
     (case underlyingTxn s txn of
        Inl err \<Rightarrow> (Some err, txn)
      | Inr underlying \<Rightarrow>
          (case transaction_UpsertPolicy underlying ident bs of
             (err, tx') \<Rightarrow> (err, TikvTxn tx')))"

definition store_DeletePolicy ::
  "store \<Rightarrow> storage_Transaction \<Rightarrow> string \<Rightarrow> error option \<times> storage_Transaction" where
  "store_DeletePolicy s txn ident =
     (case underlyingTxn s txn of
        Inl err \<Rightarrow> (Some err, txn)
      | Inr underlying \<Rightarrow>
          (case transaction_DeletePolicy underlying ident of
             (err, tx') \<Rightarrow> (err, TikvTxn tx')))"

definition store_Read :: "store \<Rightarrow> storage_Transaction \<Rightarrow> Path \<Rightarrow> error + json" where
  "store_Read s txn p =
     (case underlyingTxn s txn of
        Inl err \<Rightarrow> Inl err
      | Inr underlying \<Rightarrow> Inl (Errorf ''Not Implemented''))"

text \<open>
  \<open>util.RoundTrip\<close> (JSON-encode the value and decode it again) is not part of the
  package. A \<open>json\<close> value is already what decoding yields, so the round trip gives
  the value back and has no error.
\<close>

definition RoundTrip :: "json \<Rightarrow> error + json" where
  "RoundTrip v = Inr v"

definition store_Write ::
  "newUpdate \<Rightarrow> store \<Rightarrow> storage_Transaction \<Rightarrow> PatchOp \<Rightarrow> Path \<Rightarrow> json
     \<Rightarrow> (error option \<times> storage_Transaction) outcome" where
  "store_Write nu s txn op p v =
     (case underlyingTxn s txn of
        Inl err \<Rightarrow> Return (Some err, txn)
      | Inr underlying \<Rightarrow>
          (case RoundTrip v of
             Inl err \<Rightarrow> Return (Some err, txn)
           | Inr ptrval \<Rightarrow>
               (case transaction_Write nu underlying op p ptrval of
                  Return (err, tx') \<Rightarrow> Return (err, TikvTxn tx')
                | Panic pv \<Rightarrow> Panic pv
                | Diverge \<Rightarrow> Diverge)))"

text \<open>
  \<open>Abort\<close> checks the transaction and panics with the error of the check; it does
  nothing else (\<open>_ = underlying\<close>): no call on the backend transaction.
\<close>

definition store_Abort :: "store \<Rightarrow> storage_Transaction \<Rightarrow> (store \<times> storage_Transaction) outcome" where
  "store_Abort s txn =
     (case underlyingTxn s txn of
        Inl err \<Rightarrow> Panic (PanicError err)
      | Inr underlying \<Rightarrow> Return (s\<lparr>trace := trace s @ [AbortCalled]\<rparr>, txn))"

text \<open>
  \<open>runOnCommitTriggers\<close> ranges over the map of triggers; Go leaves the order of a
  map's keys open, the model takes the order of the list.
\<close>

definition runOnCommitTriggers :: "store \<Rightarrow> storage_Transaction \<Rightarrow> store" where
  "runOnCommitTriggers s txn =
     s\<lparr>trace := trace s @ map (\<lambda>ht. OnCommitCalled (OnCommit (snd ht))) (s_triggers s)\<rparr>"

definition store_Commit ::
  "store \<Rightarrow> storage_Transaction \<Rightarrow> (error option \<times> store \<times> storage_Transaction) outcome" where
  "store_Commit s txn =
     (case underlyingTxn s txn of
        Inl err \<Rightarrow> Return (Some err, s, txn)
      | Inr underlying \<Rightarrow>
          (case transaction_Commit underlying of
             Some err \<Rightarrow>
               (case store_Abort s txn of
                  Return (s', txn') \<Rightarrow> Return (Some err, s', txn')
                | Panic pv \<Rightarrow> Panic pv
                | Diverge \<Rightarrow> Diverge)
           | None \<Rightarrow> Return (None, runOnCommitTriggers s txn, txn)))"


definition handle_Unregister :: "handle \<Rightarrow> store \<Rightarrow> storage_Transaction \<Rightarrow> store" where
  "handle_Unregister h s txn = s\<lparr>s_triggers := filter (\<lambda>ht. fst ht \<noteq> h) (s_triggers s)\<rparr>"

section \<open>Facts about the helpers\<close>

lemma scan_updates_Nil: "scan_updates [] = Some ()"
  by (simp add: scan_updates.simps)

lemma scan_updates_Some_Nil: "scan_updates cur = Some y \<Longrightarrow> cur = []"
  by (rule scan_updates.raw_induct [where P = "\<lambda>c r. c = []"]) (auto split: list.splits)

lemma scan_updates_Cons: "scan_updates (u # us) = None"
proof (cases "scan_updates (u # us)")
  case None
  then show ?thesis .
next
  case (Some y)
  then have "u # us = []" by (rule scan_updates_Some_Nil)
  then show ?thesis by simp
qed

lemma store_Read_tikv: "store_Read s (TikvTxn u) p = Inl (Errorf ''Not Implemented'')"
  by (simp add: store_Read_def underlyingTxn_def)

lemma transaction_Write_root:
  "transaction_Write nu tx op [] v = Return (updateRoot tx op v, tx)"
  by (simp add: transaction_Write_def)

lemma store_Write_root:
  "store_Write nu s (TikvTxn u) op [] v = Return (updateRoot u op v, TikvTxn u)"
  by (simp add: store_Write_def underlyingTxn_def RoundTrip_def transaction_Write_root)

lemma store_Abort_tikv:
  "store_Abort s (TikvTxn u) = Return (s\<lparr>trace := trace s @ [AbortCalled]\<rparr>, TikvTxn u)"
  by (simp add: store_Abort_def underlyingTxn_def)


subsection \<open>Decimal numerals\<close>

lemma parse_digits_foldl:
  "parse_digits ds n =
     (if list_all is_digit ds then Some (foldl (\<lambda>m c. 10 * m + digit_value c) n ds) else None)"
  by (induction ds arbitrary: n) (simp_all add: mult.commute)

lemma parse_digits_number:
  "parse_digits ds 0 = (if list_all is_digit ds then Some (digits_number ds) else None)"
  by (simp add: parse_digits_foldl digits_number_def)

lemma Atoi_minus:
  "Atoi (CHR ''-'' # cs) =
     (if cs \<noteq> [] \<and> list_all is_digit cs
      then (if digits_number cs \<le> 2 ^ 63 then Inr (- int (digits_number cs)) else Inl ErrRange)
      else Inl ErrSyntax)"
  by (simp add: Atoi_def parse_digits_number)

lemma Atoi_plus:
  "Atoi (CHR ''+'' # cs) =
     (if cs \<noteq> [] \<and> list_all is_digit cs
      then (if digits_number cs < 2 ^ 63 then Inr (int (digits_number cs)) else Inl ErrRange)
      else Inl ErrSyntax)"
  by (simp add: Atoi_def parse_digits_number)

lemma Atoi_unsigned:
  "c \<noteq> CHR ''+'' \<Longrightarrow> c \<noteq> CHR ''-'' \<Longrightarrow>
   Atoi (c # cs) =
     (if list_all is_digit (c # cs)
      then (if digits_number (c # cs) < 2 ^ 63 then Inr (int (digits_number (c # cs)))
            else Inl ErrRange)
      else Inl ErrSyntax)"
  by (simp add: Atoi_def parse_digits_number)

lemma Atoi_decimal:
  "Atoi s =
     (if decimal_integer s
      then (if - (2 ^ 63) \<le> decimal_value s \<and> decimal_value s < 2 ^ 63
            then Inr (decimal_value s) else Inl ErrRange)
      else Inl ErrSyntax)"
proof (cases s)
  case Nil
  then show ?thesis by (simp add: Atoi_def decimal_integer_def)
next
  case (Cons c cs)
  consider (minus) "c = CHR ''-''" | (plus) "c = CHR ''+''"
    | (other) "c \<noteq> CHR ''+''" "c \<noteq> CHR ''-''"
    by blast
  then show ?thesis
  proof cases
    case minus
    have "- (2 ^ 63) \<le> - int (digits_number cs) \<longleftrightarrow> digits_number cs \<le> 2 ^ 63"
      by simp
    moreover have "- int (digits_number cs) < 2 ^ 63"
      by (rule le_less_trans [of _ 0]) simp_all
    ultimately show ?thesis
      using Cons minus by (simp add: Atoi_minus decimal_integer_def decimal_value_def)
  next
    case plus
    have "- (2 ^ 63) \<le> int (digits_number cs)"
      by (rule order_trans [of _ 0]) simp_all
    then show ?thesis
      using Cons plus by (simp add: Atoi_plus decimal_integer_def decimal_value_def)
  next
    case other
    have "- (2 ^ 63) \<le> int (digits_number (c # cs))"
      by (rule order_trans [of _ 0]) simp_all
    then show ?thesis
      using Cons other by (simp add: Atoi_unsigned decimal_integer_def decimal_value_def)
  qed
qed

subsection \<open>Keys and entries\<close>














section \<open>Writes at the root\<close>


section \<open>Commit\<close>



section \<open>Transactions of another type\<close>

text \<open>
  Claim C8, as amended. Called with a transaction whose dynamic type is not this
  package's \<open>*transaction\<close>, \<open>Read\<close>, \<open>Write\<close>, \<open>Commit\<close>, \<open>ListPolicies\<close>,
  \<open>GetPolicy\<close>, \<open>UpsertPolicy\<close> and \<open>DeletePolicy\<close> return the
  \<open>InvalidTransactionErr\<close> error "unexpected transaction type %T" and change nothing;
  \<open>Abort\<close>, which has no result to return an error in, panics with that error.
\<close>

theorem foreign_transaction_rejected:
  "store_Read s (ForeignTxn n) p
     = Inl (StorageError InvalidTransactionErr
              (Sprintf ''unexpected transaction type %T'' [ArgType n]))
   \<and> store_Write nu s (ForeignTxn n) op p v
     = Return (Some (StorageError InvalidTransactionErr
                       (Sprintf ''unexpected transaction type %T'' [ArgType n])),
               ForeignTxn n)
   \<and> store_Commit s (ForeignTxn n)
     = Return (Some (StorageError InvalidTransactionErr
                       (Sprintf ''unexpected transaction type %T'' [ArgType n])),
               s, ForeignTxn n)
   \<and> store_ListPolicies s (ForeignTxn n)
     = Return (Inl (StorageError InvalidTransactionErr
                      (Sprintf ''unexpected transaction type %T'' [ArgType n])))
   \<and> store_GetPolicy s (ForeignTxn n) ident
     = Inl (StorageError InvalidTransactionErr
              (Sprintf ''unexpected transaction type %T'' [ArgType n]))
   \<and> store_UpsertPolicy s (ForeignTxn n) ident bs
     = (Some (StorageError InvalidTransactionErr
                (Sprintf ''unexpected transaction type %T'' [ArgType n])),
        ForeignTxn n)
   \<and> store_DeletePolicy s (ForeignTxn n) ident
     = (Some (StorageError InvalidTransactionErr
                (Sprintf ''unexpected transaction type %T'' [ArgType n])),
        ForeignTxn n)
   \<and> store_Abort s (ForeignTxn n)
     = Panic (PanicError (StorageError InvalidTransactionErr
                            (Sprintf ''unexpected transaction type %T'' [ArgType n])))"
  by (simp add: store_Read_def store_Write_def store_Commit_def store_ListPolicies_def
        store_GetPolicy_def store_UpsertPolicy_def store_DeletePolicy_def store_Abort_def
        underlyingTxn_def)

text \<open>
  Counterexample to C8 as stated: \<open>Abort\<close> with a transaction of the in-memory store
  does not return; it panics.
\<close>

theorem Abort_foreign_transaction_panics:
  "store_Abort (New []) (ForeignTxn ''*inmem.transaction'')
     = Panic (PanicError (StorageError InvalidTransactionErr
                (Sprintf ''unexpected transaction type %T'' [ArgType ''*inmem.transaction''])))
   \<and> \<not> (\<exists>r. store_Abort (New []) (ForeignTxn ''*inmem.transaction'') = Return r)"
  by (simp add: store_Abort_def underlyingTxn_def)

section \<open>Array indices\<close>

text \<open>
  Claim C9, as amended. For every array, segment and path, \<open>validateArrayIndex\<close>
  \<^item> returns the \<open>NotFoundErr\<close> error with the hint "array index must be integer" when
    the segment is not a decimal integer (an optional sign and one or more digits), and
    also when it is one whose value does not fit the 64-bit \<open>int\<close>;
  \<^item> returns the \<open>NotFoundErr\<close> error with the hint "array index out of range" when the
    segment is a decimal integer that fits the \<open>int\<close> and lies outside \<open>[0, length)\<close>;
  \<^item> returns the integer otherwise.
\<close>

theorem validateArrayIndex_decimal:
  "validateArrayIndex arr s p =
     (if decimal_integer s \<and> - (2 ^ 63) \<le> decimal_value s \<and> decimal_value s < 2 ^ 63
      then (if decimal_value s < 0 \<or> int (length arr) \<le> decimal_value s
            then Inl (StorageError NotFoundErr
                        (Sprintf ''%v: %v'' [ArgPath p, ArgString ''array index out of range'']))
            else Inr (decimal_value s))
      else Inl (StorageError NotFoundErr
                  (Sprintf ''%v: %v'' [ArgPath p, ArgString ''array index must be integer''])))"
  by (simp add: validateArrayIndex_def Atoi_decimal notFoundErrorHint_def notFoundErrorf_def
        outOfRangeMsg_def arrayIndexTypeMsg_def)

text \<open>
  Counterexample to C9 as stated: the segment \<open>9223372036854775808\<close> (2 to the 63) is a
  decimal integer outside \<open>[0, 1)\<close>, and the error for it carries the hint "array index
  must be integer", not "array index out of range".
\<close>

theorem validateArrayIndex_big_integer_hint:
  "decimal_integer ''9223372036854775808''
   \<and> decimal_value ''9223372036854775808'' = 9223372036854775808
   \<and> int (length [JNull]) \<le> decimal_value ''9223372036854775808''
   \<and> validateArrayIndex [JNull] ''9223372036854775808'' [''a'', ''9223372036854775808'']
       = Inl (StorageError NotFoundErr
               (Sprintf ''%v: %v'' [ArgPath [''a'', ''9223372036854775808''],
                                    ArgString ''array index must be integer'']))
   \<and> validateArrayIndex [JNull] ''9223372036854775808'' [''a'', ''9223372036854775808'']
       \<noteq> Inl (StorageError NotFoundErr
               (Sprintf ''%v: %v'' [ArgPath [''a'', ''9223372036854775808''],
                                    ArgString ''array index out of range'']))"
  by (simp add: validateArrayIndex_def Atoi_def decimal_integer_def decimal_value_def
        digits_number_def is_digit_def digit_value_def notFoundErrorHint_def notFoundErrorf_def
        arrayIndexTypeMsg_def)

section \<open>Reading what was written\<close>

text \<open>
  Claim C1 (the code departs from it). The first \<open>Write\<close> with \<open>AddOp\<close> at a path
  that is not the root, in a transaction with no pending update, returns what
  \<open>newUpdate\<close> decides: its error, or nil with the update pushed on the list. A \<open>Read\<close>
  of that path in the transaction after the write does not return the value written: it
  returns the error "Not Implemented", as \<open>Read\<close> does for every path.
\<close>

theorem Read_after_Add_not_implemented:
  "store_Write nu s (TikvTxn \<lparr>tikvtxn = t, updates = []\<rparr>) AddOp (seg # p) v =
     (case nu AddOp (seg # p) 0 v of
        Inl err \<Rightarrow> Return (Some err, TikvTxn \<lparr>tikvtxn = t, updates = []\<rparr>)
      | Inr upd \<Rightarrow> Return (None, TikvTxn \<lparr>tikvtxn = t, updates = [upd]\<rparr>))
   \<and> store_Read s (TikvTxn \<lparr>tikvtxn = t, updates = [upd']\<rparr>) (seg # p)
       = Inl (Errorf ''Not Implemented'')"
  by (simp add: store_Write_def underlyingTxn_def RoundTrip_def transaction_Write_def
        scan_updates_Nil store_Read_tikv split: sum.splits)

text \<open>
  Claim C5 (the code departs from its second half). \<open>Write\<close> with \<open>ReplaceOp\<close> at the
  root returns the \<open>InvalidPatchErr\<close> error "root must be object" when the value is not
  an object, and nil when it is one; in both cases the transaction is left as it was,
  so the object is stored nowhere, and the \<open>Read\<close> of the root that follows returns the
  error "Not Implemented", not the object.
\<close>

theorem Replace_root_then_Read_not_implemented:
  "store_Write nu s (TikvTxn u) ReplaceOp [] v =
     Return ((case v of
                JObject m \<Rightarrow> None
              | _ \<Rightarrow> Some (StorageError InvalidPatchErr (Sprintf ''root must be object'' []))),
             TikvTxn u)
   \<and> store_Read s (TikvTxn u) [] = Inl (Errorf ''Not Implemented'')"
  by (cases v)
     (simp_all add: store_Write_root updateRoot_def invalidPatchError_def rootMustBeObjectMsg_def
        store_Read_tikv)

section \<open>Triggers\<close>


section \<open>Abort\<close>

text \<open>
  Claim C10 (the code departs from it). \<open>Abort\<close> on a transaction of this package
  returns with the transaction as it was: the backend transaction is still valid and
  holds the same entries, and the pending updates are still on the list. It is not the
  rolled-back transaction. The store's committed content and triggers are untouched, and
  the trace grows by the call of \<open>Abort\<close> alone.
\<close>

theorem Abort_leaves_backend_transaction_open:
  "store_Abort s (TikvTxn \<lparr>tikvtxn = \<lparr>entries = es, valid = True\<rparr>, updates = us\<rparr>)
     = Return (s\<lparr>trace := trace s @ [AbortCalled]\<rparr>,
               TikvTxn \<lparr>tikvtxn = \<lparr>entries = es, valid = True\<rparr>, updates = us\<rparr>)
   \<and> kv_Rollback \<lparr>entries = es, valid = True\<rparr> = \<lparr>entries = es, valid = False\<rparr>
   \<and> TikvTxn \<lparr>tikvtxn = \<lparr>entries = es, valid = True\<rparr>, updates = us\<rparr>
       \<noteq> TikvTxn \<lparr>tikvtxn = kv_Rollback \<lparr>entries = es, valid = True\<rparr>, updates = us\<rparr>"
  by (simp add: store_Abort_tikv kv_Rollback_def)

text \<open>
  A \<open>Write\<close> at a path that is not the root, in a transaction that already holds a
  pending update, does not return: its loop over the updates never leaves the first.
\<close>

lemma Write_with_pending_update_does_not_return:
  "store_Write nu s (TikvTxn \<lparr>tikvtxn = t, updates = upd # us\<rparr>) op (seg # p) v = Diverge"
  by (simp add: store_Write_def underlyingTxn_def RoundTrip_def transaction_Write_def
        scan_updates_Cons)

section \<open>Policies\<close>

text \<open>
  Claim C3 (the code departs from it). \<open>ListPolicies\<close> takes the second piece of each
  key split at \<open>/\<close>, and iterates from \<open>policies/\<close> with no upper bound:
  \<^item> the policy stored with the id \<open>a/b\<close> is listed as \<open>a\<close>;
  \<^item> the key \<open>policiez/q\<close>, outside the prefix, adds the id \<open>q\<close>;
  \<^item> a key after the prefix that holds no \<open>/\<close> makes the call panic.
\<close>

theorem ListPolicies_not_the_ids_under_prefix:
  "store_UpsertPolicy (New []) (TikvTxn \<lparr>tikvtxn = \<lparr>entries = [], valid = True\<rparr>, updates = []\<rparr>)
       ''a/b'' ''package a''
     = (None, TikvTxn \<lparr>tikvtxn = \<lparr>entries = [(''policies/a/b'', ''package a'')], valid = True\<rparr>,
                        updates = []\<rparr>)
   \<and> store_ListPolicies (New [])
       (TikvTxn \<lparr>tikvtxn = \<lparr>entries = [(''policies/a/b'', ''package a'')], valid = True\<rparr>,
                  updates = []\<rparr>)
     = Return (Inr [''a''])
   \<and> store_ListPolicies (New [])
       (TikvTxn \<lparr>tikvtxn = \<lparr>entries = [(''policies/p1'', ''package p1''), (''policiez/q'', ''x'')],
                             valid = True\<rparr>,
                  updates = []\<rparr>)
     = Return (Inr [''p1'', ''q''])
   \<and> store_ListPolicies (New [])
       (TikvTxn \<lparr>tikvtxn = \<lparr>entries = [(''policies/p1'', ''package p1''), (''zzz'', ''x'')],
                             valid = True\<rparr>,
                  updates = []\<rparr>)
     = Panic (IndexOutOfRange 1 1)"
  by (simp add: store_UpsertPolicy_def store_ListPolicies_def underlyingTxn_def
        transaction_UpsertPolicy_def transaction_ListPolicies_def kv_Set_def kv_Iter_def
        policy_key_def)




end
